theory Spec2Isabelle
  imports Complex_Main "HOL-Library.Multiset"
begin

section \<open>The sitemap tester of main.py\<close>

text \<open>
  The program is one class, \<open>SitemapTester\<close>, with the methods \<open>parse_sitemap\<close>,
  \<open>test_single_url\<close>, \<open>run_test\<close> and \<open>generate_report\<close>. Everything it does goes through
  the network, the clock, the console and the file system, so the model makes these
  explicit: what the outside world answers is a record \<open>env\<close> that the functions read,
  and what the program does to the outside world is a list of \<open>event\<close>s in program
  order. Python's \<open>str\<close> is \<open>string\<close>. Latencies and the statistics over them are
  \<open>real\<close> numbers; the percentages of the report are computed with the rounding of
  Python's floats, since there the rounding decides what the report shows.
\<close>

subsection \<open>Exceptions\<close>

text \<open>
  Every constructor is a subclass of Python's \<open>Exception\<close> and carries the text that
  \<open>str(e)\<close> gives. \<open>Timeout\<close> is \<open>requests.exceptions.Timeout\<close>, \<open>HTTPError\<close> is what
  \<open>raise_for_status\<close> raises, \<open>ParseError\<close> is what \<open>ET.fromstring\<close> raises,
  \<open>ValueError\<close> is what the thread pool's constructor raises, \<open>TypeError\<close> is what
  formatting \<open>None\<close> with \<open>.0f\<close> raises, \<open>OtherException\<close> is any other \<open>Exception\<close>.
  \<open>KeyboardInterrupt\<close> is not an \<open>Exception\<close> and is not modelled: no function here runs
  under a user interrupt.
\<close>

datatype exn =
    Timeout string
  | HTTPError string
  | ParseError string
  | ValueError string
  | TypeError string
  | OtherException string

fun str_exn :: "exn \<Rightarrow> string" where
  "str_exn (Timeout m) = m"
| "str_exn (HTTPError m) = m"
| "str_exn (ParseError m) = m"
| "str_exn (ValueError m) = m"
| "str_exn (TypeError m) = m"
| "str_exn (OtherException m) = m"

fun is_Timeout :: "exn \<Rightarrow> bool" where
  "is_Timeout (Timeout m) = True"
| "is_Timeout e = False"

subsection \<open>HTTP responses and XML elements\<close>

text \<open>
  A \<open>requests\<close> response, as far as the program reads it: \<open>status_code\<close>, \<open>content\<close>, and
  the message \<open>raise_for_status\<close> would put into its \<open>HTTPError\<close>.
\<close>

record response =
  status :: nat
  content :: string
  http_error_msg :: string

text \<open>
  \<open>Response.raise_for_status\<close> of the \<open>requests\<close> library raises for the client-error
  and server-error classes only, that is for \<open>400 \<le> status_code < 600\<close>.
\<close>

definition raise_for_status :: "response \<Rightarrow> exn + unit" where
  "raise_for_status r =
     (if 400 \<le> status r \<and> status r < 600 then Inl (HTTPError (http_error_msg r)) else Inr ())"

text \<open>
  An \<open>ElementTree\<close> element: its tag (namespace and local name), its \<open>text\<close> (\<open>None\<close> for
  an element without text) and its child elements in document order.
\<close>

datatype element =
  Element (elem_tag: "string \<times> string") (elem_text: "string option") (elem_children: "element list")

definition namespace :: string where
  "namespace = ''http://www.sitemaps.org/schemas/sitemap/0.9''"

definition ns_url :: "string \<times> string" where
  "ns_url = (namespace, ''url'')"

definition ns_loc :: "string \<times> string" where
  "ns_loc = (namespace, ''loc'')"

text \<open>\<open>Element.findall(path)\<close> with a tag as path: the direct children with that tag.\<close>

definition findall :: "element \<Rightarrow> string \<times> string \<Rightarrow> element list" where
  "findall e t = filter (\<lambda>c. elem_tag c = t) (elem_children e)"

text \<open>\<open>Element.find(path)\<close>: the first such child, or \<open>None\<close>.\<close>

definition find_elem :: "element \<Rightarrow> string \<times> string \<Rightarrow> element option" where
  "find_elem e t = (case findall e t of [] \<Rightarrow> None | c # cs \<Rightarrow> Some c)"

subsection \<open>Results, the tester, the outside world\<close>

text \<open>
  The dictionary that \<open>test_single_url\<close> builds, with its five keys. A URL is
  \<open>string option\<close> because \<open>parse_sitemap\<close> appends \<open>loc.text\<close>, which is \<open>None\<close> for an
  empty \<open>loc\<close> element.
\<close>

record result =
  url :: "string option"
  response_time :: "real option"
  status_code :: "nat option"
  success :: bool
  error :: "string option"

text \<open>The fields of \<open>SitemapTester\<close>; \<open>session\<close> is part of the outside world.\<close>

record tester =
  sitemap_url :: string
  max_workers :: int
  timeout :: real
  results :: "result list"

text \<open>
  What the outside world answers.
  \<^item> \<open>sitemap_get u s\<close>: \<open>session.get(u, timeout=s)\<close> in \<open>parse_sitemap\<close>: the exception it
    raises or the response it returns.
  \<^item> \<open>fromstring b\<close>: \<open>ET.fromstring(b)\<close>: a \<open>ParseError\<close> or the root element.
  \<^item> \<open>page_get i u s\<close>: \<open>session.get(u, timeout=s)\<close> in the task submitted for the
    \<open>i\<close>-th URL (the same URL can be listed twice and be answered differently).
  \<^item> \<open>page_clock i\<close>: the two readings of \<open>time.time()\<close> in that task, before and after
    the request. \<open>time.time()\<close> is the system's wall clock: Python documents that it can
    return a lower value than an earlier call when the system clock is set back, so the
    model assumes no order between the two readings.
  \<^item> \<open>completion k\<close>: which of the futures still pending \<open>as_completed\<close> yields at its
    \<open>k\<close>-th step (taken modulo the number of pending futures).
  \<^item> \<open>test_clock\<close>: the two readings of \<open>time.time()\<close> around the pool in \<open>run_test\<close>.
  \<^item> \<open>now_file\<close>, \<open>now_report\<close>: \<open>datetime.now()\<close> in the two formats of
    \<open>generate_report\<close>.
\<close>

record env =
  sitemap_get :: "string \<Rightarrow> real \<Rightarrow> exn + response"
  fromstring :: "string \<Rightarrow> exn + element"
  page_get :: "nat \<Rightarrow> string option \<Rightarrow> real \<Rightarrow> exn + response"
  page_clock :: "nat \<Rightarrow> real \<times> real"
  completion :: "nat \<Rightarrow> nat"
  test_clock :: "real \<times> real"
  now_file :: string
  now_report :: string

subsection \<open>What the program does to the outside world\<close>

text \<open>
  One constructor per \<open>print\<close> statement of main.py, in the order of the source lines,
  with the values the statement formats (unformatted).
\<close>

datatype msg =
    Fetching_sitemap string
  | Parsed_urls nat
  | Parse_failed exn
  | Start_banner
  | Rule_equals
  | No_urls_found
  | Start_pages nat int
  | Rule_dashes
  | Progress_ok nat nat "string option" real
  | Progress_failed nat nat "string option" "string option"
  | Progress_exception nat nat "string option" exn
  | Test_done real
  | No_results
  | Blank_rule_equals
  | Summary_title
  | Total_pages nat
  | Successful_count nat
  | Failed_count nat
  | Stats_title
  | Fastest real
  | Slowest real
  | Mean real
  | Median real
  | Distribution_title
  | Bucket_fast nat real
  | Bucket_medium nat real
  | Bucket_slow nat real
  | Failed_title
  | Failed_page "string option" "string option"
  | Saved_to string

text \<open>The lines written to the report file.\<close>

datatype file_line =
    File_title
  | File_time string
  | File_sitemap string
  | File_count nat
  | File_blank
  | File_ok "string option" "real option"
  | File_failed "string option" "string option"

text \<open>
  \<open>Submit i u\<close> is \<open>executor.submit(self.test_single_url, u)\<close> for the \<open>i\<close>-th URL,
  \<open>Sleep s\<close> is \<open>time.sleep(s)\<close>, \<open>Write_file name lines\<close> is the \<open>with open(name, 'w')\<close>
  block.
\<close>

datatype event =
    Print msg
  | Submit nat "string option"
  | Sleep real
  | Write_file string "file_line list"

subsection \<open>\<open>parse_sitemap\<close>\<close>

text \<open>The loop of lines 43 to 47, with \<open>urls\<close> as accumulator.\<close>

fun collect_locs :: "element list \<Rightarrow> string option list \<Rightarrow> string option list" where
  "collect_locs [] urls = urls"
| "collect_locs (u # us) urls =
     (case find_elem u ns_loc of
        None \<Rightarrow> collect_locs us urls
      | Some loc \<Rightarrow> collect_locs us (urls @ [elem_text loc]))"

text \<open>
  Lines 30 to 54. The whole body is inside \<open>try\<close>; the handler catches every
  \<open>Exception\<close>, prints it and returns the empty list. The result is the returned list
  and what was printed.
\<close>

definition parse_sitemap :: "env \<Rightarrow> tester \<Rightarrow> string option list \<times> event list" where
  "parse_sitemap w t =
     (case sitemap_get w (sitemap_url t) (timeout t) of
        Inl e \<Rightarrow> ([], [Print (Fetching_sitemap (sitemap_url t)), Print (Parse_failed e)])
      | Inr r \<Rightarrow>
          (case raise_for_status r of
             Inl e \<Rightarrow> ([], [Print (Fetching_sitemap (sitemap_url t)), Print (Parse_failed e)])
           | Inr _ \<Rightarrow>
               (case fromstring w (content r) of
                  Inl e \<Rightarrow> ([], [Print (Fetching_sitemap (sitemap_url t)), Print (Parse_failed e)])
                | Inr xml_root \<Rightarrow>
                    (let urls = collect_locs (findall xml_root ns_url) []
                     in (urls, [Print (Fetching_sitemap (sitemap_url t)),
                                Print (Parsed_urls (length urls))])))))"

subsection \<open>\<open>test_single_url\<close>\<close>

text \<open>
  The literal of line 79, four Chinese characters meaning "request timed out", as its
  UTF-8 bytes.
\<close>

definition timeout_message :: string where
  "timeout_message =
     [CHR 0xE8, CHR 0xAF, CHR 0xB7, CHR 0xE6, CHR 0xB1, CHR 0x82,
      CHR 0xE8, CHR 0xB6, CHR 0x85, CHR 0xE6, CHR 0x97, CHR 0xB6]"

text \<open>
  Lines 56 to 90, run as the task of the \<open>i\<close>-th URL. The first handler catches
  \<open>requests.exceptions.Timeout\<close>, the second every other \<open>Exception\<close>. The type keeps
  the possibility of raising (\<open>Inl\<close>), so that not raising is a theorem and not a type.
\<close>

definition test_single_url :: "env \<Rightarrow> tester \<Rightarrow> nat \<Rightarrow> string option \<Rightarrow> exn + result" where
  "test_single_url w t i u =
     (let start_time = fst (page_clock w i)
      in case page_get w i u (timeout t) of
           Inr resp \<Rightarrow>
             (let end_time = snd (page_clock w i);
                  rt = (end_time - start_time) * 1000
              in Inr \<lparr>url = u, response_time = Some rt, status_code = Some (status resp),
                      success = True, error = None\<rparr>)
         | Inl e \<Rightarrow>
             (if is_Timeout e
              then Inr \<lparr>url = u, response_time = None, status_code = None,
                        success = False, error = Some timeout_message\<rparr>
              else Inr \<lparr>url = u, response_time = None, status_code = None,
                        success = False, error = Some (str_exn e)\<rparr>))"

subsection \<open>The thread pool of \<open>run_test\<close>\<close>

text \<open>
  A future of the pool: the index of its URL in \<open>urls\<close>, the URL that \<open>future_to_url\<close>
  maps it to, and what \<open>future.result()\<close> gives once the task has run: the exception the
  task raised or the value it returned.
\<close>

type_synonym future = "nat \<times> string option \<times> (exn + result)"

text \<open>
  Line 112: the dictionary comprehension submits one task per element of \<open>urls\<close>, in
  order, before anything else happens. Futures are distinct objects, so a URL listed
  twice gives two keys.
\<close>

definition submit_all :: "env \<Rightarrow> tester \<Rightarrow> string option list \<Rightarrow> future list" where
  "submit_all w t urls = map (\<lambda>(i, u). (i, u, test_single_url w t i u)) (enumerate 0 urls)"

text \<open>
  \<open>concurrent.futures.as_completed\<close> yields every future it is given once, in the order
  in which the tasks finish. That order is the outside world's choice: at step \<open>k\<close> the
  future at position \<open>pick k mod n\<close> of the \<open>n\<close> pending ones is yielded.
\<close>

function as_completed :: "(nat \<Rightarrow> nat) \<Rightarrow> nat \<Rightarrow> 'a list \<Rightarrow> 'a list" where
  "as_completed pick k [] = []"
| "as_completed pick k (f # fs) =
     (f # fs) ! (pick k mod Suc (length fs))
       # as_completed pick (Suc k)
           (take (pick k mod Suc (length fs)) (f # fs)
              @ drop (Suc (pick k mod Suc (length fs))) (f # fs))"
  by pat_completeness auto
termination
  by (relation "measure (\<lambda>(pick, k, fs). length fs)") auto

text \<open>
  What formatting \<open>None\<close> with \<open>.0f\<close>, or comparing \<open>None\<close> with a float in \<open>min\<close>,
  raises. No result that \<open>test_single_url\<close> builds leads here.
\<close>

definition none_type_error :: exn where
  "none_type_error = TypeError ''NoneType''"

text \<open>
  Lines 115 to 132: the body of the loop over \<open>enumerate(as_completed(...), 1)\<close>, for
  the \<open>i\<close>-th completed future, with \<open>n = len(urls)\<close>. The result is appended before
  anything is printed; the sleep is the last statement inside \<open>try\<close>.
\<close>

definition handle_completed :: "tester \<Rightarrow> nat \<Rightarrow> nat \<Rightarrow> future \<Rightarrow> tester \<times> event list" where
  "handle_completed t n i fu =
     (case fu of (k, u, fr) \<Rightarrow>
        (case fr of
           Inl e \<Rightarrow> (t, [Print (Progress_exception i n u e)])
         | Inr r \<Rightarrow>
             (let t' = t\<lparr>results := results t @ [r]\<rparr>;
                  pause = (if max_workers t = 1 then [Sleep 1] else [])
              in if success r
                 then (case response_time r of
                         Some ms \<Rightarrow> (t', Print (Progress_ok i n u ms) # pause)
                       | None \<Rightarrow> (t', [Print (Progress_exception i n u none_type_error)]))
                 else (t', Print (Progress_failed i n u (error r)) # pause))))"

fun process_completed :: "tester \<Rightarrow> nat \<Rightarrow> nat \<Rightarrow> future list \<Rightarrow> tester \<times> event list" where
  "process_completed t n i [] = (t, [])"
| "process_completed t n i (fu # fus) =
     (let (t', ev) = handle_completed t n i fu;
          (t'', evs) = process_completed t' n (Suc i) fus
      in (t'', ev @ evs))"

text \<open>How a method ends: the tester, what it did, and the exception it raised, if any.\<close>

record outcome =
  final :: tester
  trace :: "event list"
  raised :: "exn option"

text \<open>
  Lines 110 to 132, for any list \<open>urls\<close>. \<open>ThreadPoolExecutor\<close> refuses
  \<open>max_workers \<le> 0\<close> with a \<open>ValueError\<close>, which nothing in \<open>run_test\<close> catches.
\<close>

definition run_pool :: "env \<Rightarrow> tester \<Rightarrow> string option list \<Rightarrow> outcome" where
  "run_pool w t urls =
     (if max_workers t \<le> 0
      then \<lparr>final = t, trace = [],
            raised = Some (ValueError ''max_workers must be greater than 0'')\<rparr>
      else
        (let future_to_url = submit_all w t urls;
             (t', ev) = process_completed t (length urls) 1
                          (as_completed (completion w) 0 future_to_url)
         in \<lparr>final = t', trace = map (\<lambda>(i, u, fr). Submit i u) future_to_url @ ev,
              raised = None\<rparr>))"

subsection \<open>\<open>generate_report\<close>\<close>

text \<open>\<open>min\<close> and \<open>max\<close> of a non-empty list, \<open>statistics.mean\<close> and \<open>statistics.median\<close>.\<close>

definition py_min :: "real list \<Rightarrow> real" where
  "py_min ts = fold min (tl ts) (hd ts)"

definition py_max :: "real list \<Rightarrow> real" where
  "py_max ts = fold max (tl ts) (hd ts)"

definition mean :: "real list \<Rightarrow> real" where
  "mean ts = sum_list ts / real (length ts)"

definition median :: "real list \<Rightarrow> real" where
  "median ts =
     (let data = sort ts; n = length data
      in if n mod 2 = 1 then data ! (n div 2)
         else (data ! (n div 2 - 1) + data ! (n div 2)) / 2)"

text \<open>Lines 166 to 168: the three counts.\<close>

definition fast :: "real list \<Rightarrow> nat" where
  "fast response_times = length (filter (\<lambda>t. t < 500) response_times)"

definition medium :: "real list \<Rightarrow> nat" where
  "medium response_times = length (filter (\<lambda>t. 500 \<le> t \<and> t < 2000) response_times)"

definition slow :: "real list \<Rightarrow> nat" where
  "slow response_times = length (filter (\<lambda>t. t \<ge> 2000) response_times)"

text \<open>
  Python's \<open>float\<close> is the IEEE binary64 format: 53 significant bits, every operation
  rounded to the nearest float, ties to the even significand. A float that is not
  negative is kept here as a pair of natural numbers, numerator and denominator, whose
  quotient is its value. The exponent range of the format is not modelled: the values
  below lie between \<open>1 / len\<close> and \<open>100\<close>.
\<close>

type_synonym pyfloat = "nat \<times> nat"

definition float_value :: "pyfloat \<Rightarrow> real" where
  "float_value x = real (fst x) / real (snd x)"

text \<open>\<open>int.bit_length\<close>: the number of binary digits.\<close>

fun bit_length :: "nat \<Rightarrow> nat" where
  "bit_length n = (if n = 0 then 0 else Suc (bit_length (n div 2)))"

declare bit_length.simps [simp del]

text \<open>The integer nearest to \<open>a / b\<close>, a tie going to the even one.\<close>

definition round_half_even :: "nat \<Rightarrow> nat \<Rightarrow> nat" where
  "round_half_even a b =
     (let q = a div b; r = a mod b
      in if 2 * r < b then q
         else if b < 2 * r then q + 1
         else if even q then q else q + 1)"

text \<open>
  The float nearest to the quotient \<open>a / b\<close>, for \<open>b > 0\<close>. The quotient is scaled by
  \<open>2 ^ u / 2 ^ v\<close> into the interval from \<open>2 ^ 52\<close> to \<open>2 ^ 53\<close>, rounded to the integer
  \<open>m\<close>, its 53-bit significand, and scaled back.
\<close>

definition nearest_float :: "nat \<Rightarrow> nat \<Rightarrow> pyfloat" where
  "nearest_float a b =
     (if a = 0 then (0, 1)
      else
        (let u = 53 + bit_length b;
             v0 = bit_length a;
             v = (if 2 ^ 53 * (b * 2 ^ v0) \<le> a * 2 ^ u then Suc v0 else v0);
             m = round_half_even (a * 2 ^ u) (b * 2 ^ v)
         in (m * 2 ^ v, 2 ^ u)))"

text \<open>
  \<open>c / n\<close> for two \<open>int\<close>s is the float nearest to the quotient; \<open>x * k\<close> for a float and
  an \<open>int\<close> that is itself a float, such as 100, is the float nearest to the product.
\<close>

definition true_divide :: "nat \<Rightarrow> nat \<Rightarrow> pyfloat" where
  "true_divide c n = nearest_float c n"

definition float_times :: "pyfloat \<Rightarrow> nat \<Rightarrow> pyfloat" where
  "float_times x k = nearest_float (fst x * k) (snd x)"

text \<open>
  The percentage of lines 171 to 173: \<open>count / len(successful_tests) * 100\<close>, that is
  \<open>(count / len) * 100\<close> with both operations rounded. Line 156 lets it be computed
  only when \<open>len(successful_tests)\<close> is not zero.
\<close>

definition percent :: "nat \<Rightarrow> nat \<Rightarrow> real" where
  "percent c n = float_value (float_times (true_divide c n) 100)"

text \<open>Lines 156 to 173, for the latencies of the successful results.\<close>

definition stats_block :: "real list \<Rightarrow> event list" where
  "stats_block response_times =
     (if response_times = [] then []
      else [Print Stats_title,
            Print (Fastest (py_min response_times)),
            Print (Slowest (py_max response_times)),
            Print (Mean (mean response_times)),
            Print (Median (median response_times)),
            Print Distribution_title,
            Print (Bucket_fast (fast response_times)
                     (percent (fast response_times) (length response_times))),
            Print (Bucket_medium (medium response_times)
                     (percent (medium response_times) (length response_times))),
            Print (Bucket_slow (slow response_times)
                     (percent (slow response_times) (length response_times)))])"

text \<open>Lines 175 to 178.\<close>

definition failed_block :: "result list \<Rightarrow> event list" where
  "failed_block failed_tests =
     (if failed_tests = [] then []
      else Print Failed_title # map (\<lambda>r. Print (Failed_page (url r) (error r))) failed_tests)"

text \<open>Lines 180 to 196: the report file and the last line on the console.\<close>

definition file_line_of :: "result \<Rightarrow> file_line" where
  "file_line_of r =
     (if success r then File_ok (url r) (response_time r) else File_failed (url r) (error r))"

definition report_file :: "env \<Rightarrow> tester \<Rightarrow> event list" where
  "report_file w t =
     (let filename = ''sitemap_test_results_'' @ now_file w @ ''.txt''
      in [Write_file filename
            ([File_title, File_time (now_report w), File_sitemap (sitemap_url t),
              File_count (length (results t)), File_blank]
             @ map file_line_of (results t)),
          Print (Saved_to filename)])"

text \<open>
  Lines 140 to 196. A successful result without a latency makes line 160 raise a
  \<open>TypeError\<close>, after the prints of lines 149 to 159.
\<close>

definition generate_report :: "env \<Rightarrow> tester \<Rightarrow> event list \<times> exn option" where
  "generate_report w t =
     (if results t = [] then ([Print No_results], None)
      else
        (let successful_tests = filter success (results t);
             failed_tests = filter (\<lambda>r. \<not> success r) (results t);
             summary = [Print Blank_rule_equals, Print Summary_title, Print Rule_equals,
                        Print (Total_pages (length (results t))),
                        Print (Successful_count (length successful_tests)),
                        Print (Failed_count (length failed_tests))]
         in case those (map response_time successful_tests) of
              None \<Rightarrow> (summary @ [Print Stats_title], Some none_type_error)
            | Some response_times \<Rightarrow>
                (summary @ stats_block response_times @ failed_block failed_tests
                   @ report_file w t, None)))"

subsection \<open>\<open>run_test\<close>\<close>

text \<open>
  Lines 92 to 138. An empty list from \<open>parse_sitemap\<close> ends the run at line 101; an
  exception of the pool or of \<open>generate_report\<close> leaves \<open>run_test\<close> uncaught.
\<close>

definition run_test :: "env \<Rightarrow> tester \<Rightarrow> outcome" where
  "run_test w t =
     (let (urls, parsing) = parse_sitemap w t;
          opening = [Print Start_banner, Print Rule_equals] @ parsing
      in if urls = []
         then \<lparr>final = t, trace = opening @ [Print No_urls_found], raised = None\<rparr>
         else
           (let starting = [Print (Start_pages (length urls) (max_workers t)),
                            Print Rule_dashes];
                p = run_pool w t urls
            in case raised p of
                 Some e \<Rightarrow> \<lparr>final = final p, trace = opening @ starting @ trace p,
                             raised = Some e\<rparr>
               | None \<Rightarrow>
                   (let total_test_time = snd (test_clock w) - fst (test_clock w);
                        (reporting, exc) = generate_report w (final p)
                    in \<lparr>final = final p,
                         trace = opening @ starting @ trace p
                                   @ [Print (Test_done total_test_time)] @ reporting,
                         raised = exc\<rparr>)))"

section \<open>Auxiliary definitions\<close>

subsection \<open>Notions used to state the properties\<close>

text \<open>The values that the futures of a list returned, in the order of the list.\<close>

fun returned :: "future list \<Rightarrow> result list" where
  "returned [] = []"
| "returned ((k, u, Inl e) # fus) = returned fus"
| "returned ((k, u, Inr r) # fus) = r # returned fus"

text \<open>A future whose task returned a result for the URL it was submitted with.\<close>

definition task_ok :: "future \<Rightarrow> bool" where
  "task_ok fu = (case fu of (k, u, fr) \<Rightarrow> (case fr of Inl e \<Rightarrow> False | Inr r \<Rightarrow> url r = u))"

definition is_Submit :: "event \<Rightarrow> bool" where
  "is_Submit ev = (case ev of Submit i u \<Rightarrow> True | _ \<Rightarrow> False)"

definition is_Write_file :: "event \<Rightarrow> bool" where
  "is_Write_file ev = (case ev of Write_file name ls \<Rightarrow> True | _ \<Rightarrow> False)"

text \<open>
  What one \<open>url\<close> element contributes to the list: nothing (\<open>None\<close>) without a \<open>loc\<close>
  child, otherwise the text of its first \<open>loc\<close> child.
\<close>

definition loc_text :: "element \<Rightarrow> string option option" where
  "loc_text u = map_option elem_text (find_elem u ns_loc)"

subsection \<open>Concrete inputs\<close>

definition url_entry :: "string \<Rightarrow> element" where
  "url_entry u =
     Element ns_url None
       [Element (namespace, ''lastmod'') (Some ''2024-01-01'') [], Element ns_loc (Some u) []]"

definition url_entry_without_loc :: element where
  "url_entry_without_loc =
     Element ns_url None [Element (namespace, ''lastmod'') (Some ''2024-01-01'') []]"

definition urlset :: "element list \<Rightarrow> element" where
  "urlset entries = Element (namespace, ''urlset'') None entries"

text \<open>Three \<open>url\<close> entries, the second without \<open>loc\<close>.\<close>

definition two_pages :: element where
  "two_pages =
     urlset [url_entry ''http://example.com/a'', url_entry_without_loc,
             url_entry ''http://example.com/b'']"

definition one_page :: element where
  "one_page = urlset [url_entry ''http://example.com/c'']"

definition example_tester :: tester where
  "example_tester = \<lparr>sitemap_url = ''http://example.com/sitemap.xml'', max_workers = 1,
                      timeout = 15, results = []\<rparr>"

definition http_answer :: "nat \<Rightarrow> exn + response" where
  "http_answer st =
     Inr \<lparr>status = st, content = ''<urlset/>'', http_error_msg = ''HTTP error''\<rparr>"

text \<open>
  A world in which the sitemap request ends as \<open>answer\<close>, the XML parser as \<open>parsed\<close>,
  the task of index 1 times out, every other page answers 404 after a quarter of a
  second, and the later of two pending futures finishes first.
\<close>

definition example_env :: "(exn + response) \<Rightarrow> (exn + element) \<Rightarrow> env" where
  "example_env answer parsed =
     \<lparr>sitemap_get = (\<lambda>u s. answer),
      fromstring = (\<lambda>b. parsed),
      page_get = (\<lambda>i u s. if i = 1 then Inl (Timeout ''read timed out'')
                           else Inr \<lparr>status = 404, content = [],
                                     http_error_msg = ''Not Found''\<rparr>),
      page_clock = (\<lambda>i. (10, 10 + 1 / 4)),
      completion = (\<lambda>k. 1),
      test_clock = (10, 13),
      now_file = ''20260101_120000'',
      now_report = ''2026-01-01 12:00:00''\<rparr>"

text \<open>The same world with every page answering 200 and the tasks finishing in order.\<close>

definition paced_env :: env where
  "paced_env =
     (example_env (http_answer 200) (Inr two_pages))
       \<lparr>page_get := (\<lambda>i u s. Inr \<lparr>status = 200, content = [], http_error_msg = []\<rparr>),
        completion := (\<lambda>k. 0)\<rparr>"

text \<open>The same world with the system clock set back by a second during each request.\<close>

definition clock_set_back_env :: env where
  "clock_set_back_env =
     (example_env (http_answer 200) (Inr two_pages))\<lparr>page_clock := (\<lambda>i. (10, 9))\<rparr>"

definition timed :: "real \<Rightarrow> result" where
  "timed ms = \<lparr>url = Some ''http://example.com/a'', response_time = Some ms,
               status_code = Some 200, success = True, error = None\<rparr>"

definition timed_out :: result where
  "timed_out = \<lparr>url = Some ''http://example.com/b'', response_time = None,
                 status_code = None, success = False, error = Some timeout_message\<rparr>"

definition five_results :: "result list" where
  "five_results = map timed [100, 300, 700, 1500, 3000]"

section \<open>Properties\<close>

subsection \<open>The pool: one result per submitted URL\<close>

lemma test_single_url_Inr: "\<exists>r. test_single_url w t i u = Inr r \<and> url r = u"
  by (simp add: test_single_url_def Let_def split: sum.splits)

text \<open>\<open>as_completed\<close> yields a permutation of the futures, whatever the world picks.\<close>

lemma mset_as_completed: "mset (as_completed pick k fs) = mset fs"
proof (induction pick k fs rule: as_completed.induct)
  case (1 pick k)
  then show ?case by simp
next
  case (2 pick k f fs)
  let ?xs = "f # fs"
  let ?j = "pick k mod Suc (length fs)"
  have j: "?j < length ?xs" by simp
  have "?xs = take ?j ?xs @ ?xs ! ?j # drop (Suc ?j) ?xs"
    using j by (rule id_take_nth_drop)
  then have "mset ?xs = mset (take ?j ?xs @ ?xs ! ?j # drop (Suc ?j) ?xs)"
    by simp
  also have "\<dots> = add_mset (?xs ! ?j) (mset (take ?j ?xs @ drop (Suc ?j) ?xs))"
    by simp
  finally show ?case using 2 by simp
qed

lemma results_handle_completed:
  "results (fst (handle_completed t n i fu)) = results t @ returned [fu]"
  by (cases fu) (auto simp: handle_completed_def Let_def split: sum.splits option.splits)

lemma returned_Cons: "returned (fu # fus) = returned [fu] @ returned fus"
proof -
  obtain k u fr where "fu = (k, u, fr)" by (cases fu)
  then show ?thesis by (cases fr) simp_all
qed

lemma results_process_completed:
  "results (fst (process_completed t n i fus)) = results t @ returned fus"
proof (induction fus arbitrary: t i)
  case Nil
  then show ?case by simp
next
  case (Cons fu fus)
  obtain t' ev where h: "handle_completed t n i fu = (t', ev)" by force
  obtain t'' evs where p: "process_completed t' n (Suc i) fus = (t'', evs)" by force
  have "results t'' = results t' @ returned fus"
    using Cons.IH [of t' "Suc i"] p by simp
  moreover have "results t' = results t @ returned [fu]"
    using results_handle_completed [of t n i fu] h by simp
  ultimately show ?case
    using h p returned_Cons [of fu fus] by simp
qed

lemma returned_all_ok:
  "list_all task_ok fus \<Longrightarrow>
     map Inr (returned fus) = map (\<lambda>(k, u, fr). fr) fus
     \<and> map url (returned fus) = map (\<lambda>(k, u, fr). u) fus"
  by (induction fus rule: returned.induct) (auto simp: task_ok_def)

lemma submit_all_ok: "list_all task_ok (submit_all w t urls)"
proof -
  have "task_ok (i, u, test_single_url w t i u)" for i u
    using test_single_url_Inr [of w t i u] by (auto simp: task_ok_def)
  then show ?thesis
    by (auto simp: submit_all_def list_all_iff)
qed

lemma submit_all_urls: "map (\<lambda>(k, u, fr). u) (submit_all w t urls) = urls"
proof -
  have "map (\<lambda>(k, u, fr). u) (submit_all w t urls) = map snd (enumerate 0 urls)"
    by (simp add: submit_all_def case_prod_unfold comp_def)
  then show ?thesis by simp
qed

lemma submit_all_outcomes:
  "map (\<lambda>(k, u, fr). fr) (submit_all w t urls)
     = map (\<lambda>(i, u). test_single_url w t i u) (enumerate 0 urls)"
  by (simp add: submit_all_def case_prod_unfold comp_def)

lemma run_pool_results:
  "0 < max_workers t \<Longrightarrow>
     raised (run_pool w t urls) = None \<and>
     results (final (run_pool w t urls))
       = results t @ returned (as_completed (completion w) 0 (submit_all w t urls))"
  using results_process_completed
          [of t "length urls" 1 "as_completed (completion w) 0 (submit_all w t urls)"]
  by (auto simp: run_pool_def Let_def split: prod.splits)

text \<open>
  C1. For every list of URLs and every order of completion, the pool of \<open>run_test\<close>
  (with a positive number of workers, which the pool's constructor requires) ends
  without an exception and appends exactly one result per submitted URL: the results
  there were before are kept, the number of new results is the number of URLs, the
  URLs of the new results are the submitted URLs with the same multiplicities, and the
  new results are exactly what the tasks of the URLs returned.
\<close>

theorem run_pool_one_result_per_url:
  assumes "0 < max_workers t"
  shows "raised (run_pool w t urls) = None
       \<and> length (results (final (run_pool w t urls))) = length (results t) + length urls
       \<and> take (length (results t)) (results (final (run_pool w t urls))) = results t
       \<and> mset (map url (drop (length (results t)) (results (final (run_pool w t urls)))))
            = mset urls
       \<and> mset (map Inr (drop (length (results t)) (results (final (run_pool w t urls)))))
            = mset (map (\<lambda>(i, u). test_single_url w t i u) (enumerate 0 urls))"
proof -
  let ?done = "as_completed (completion w) 0 (submit_all w t urls)"
  have perm: "mset ?done = mset (submit_all w t urls)"
    by (rule mset_as_completed)
  then have "set ?done = set (submit_all w t urls)"
    by (rule mset_eq_setD)
  then have ok: "list_all task_ok ?done"
    using submit_all_ok [of w t urls] by (simp add: list_all_iff)
  have res: "results (final (run_pool w t urls)) = results t @ returned ?done"
    and none: "raised (run_pool w t urls) = None"
    using run_pool_results [OF assms] by simp_all
  have "mset (map url (returned ?done)) = mset (map (\<lambda>(k, u, fr). u) ?done)"
    using returned_all_ok [OF ok] by simp
  also have "\<dots> = image_mset (\<lambda>(k, u, fr). u) (mset (submit_all w t urls))"
    using perm by (metis mset_map)
  also have "\<dots> = mset urls"
    using submit_all_urls [of w t urls] by (metis mset_map)
  finally have urls: "mset (map url (returned ?done)) = mset urls" .
  have "mset (map Inr (returned ?done)) = mset (map (\<lambda>(k, u, fr). fr) ?done)"
    using returned_all_ok [OF ok] by simp
  also have "\<dots> = image_mset (\<lambda>(k, u, fr). fr) (mset (submit_all w t urls))"
    using perm by (metis mset_map)
  also have "\<dots> = mset (map (\<lambda>(i, u). test_single_url w t i u) (enumerate 0 urls))"
    using submit_all_outcomes [of w t urls] by (metis mset_map)
  finally have outs: "mset (map Inr (returned ?done))
                        = mset (map (\<lambda>(i, u). test_single_url w t i u) (enumerate 0 urls))" .
  have "length (returned ?done) = length urls"
    using urls by (metis length_map size_mset)
  then show ?thesis
    using res none urls outs by simp
qed

text \<open>C1 at a list of three URLs, one of them listed twice.\<close>

theorem run_pool_one_result_per_url_witness:
  "0 < max_workers example_tester
   \<and> raised (run_pool paced_env example_tester
               [Some ''http://example.com/a'', Some ''http://example.com/b'',
                Some ''http://example.com/a'']) = None
   \<and> length (results (final (run_pool paced_env example_tester
               [Some ''http://example.com/a'', Some ''http://example.com/b'',
                Some ''http://example.com/a'']))) = 3
   \<and> mset (map url (results (final (run_pool paced_env example_tester
               [Some ''http://example.com/a'', Some ''http://example.com/b'',
                Some ''http://example.com/a'']))))
       = mset [Some ''http://example.com/a'', Some ''http://example.com/b'',
               Some ''http://example.com/a'']"
proof -
  have h: "0 < max_workers example_tester"
    by (simp add: example_tester_def)
  show ?thesis
    using h run_pool_one_result_per_url [OF h, of paced_env
            "[Some ''http://example.com/a'', Some ''http://example.com/b'',
              Some ''http://example.com/a'']"]
    by (simp add: example_tester_def)
qed

subsection \<open>The pool: where the one-second sleep stands\<close>

lemma handle_completed_no_submit: "\<not> list_ex is_Submit (snd (handle_completed t n i fu))"
  by (cases fu)
    (auto simp: handle_completed_def is_Submit_def Let_def split: sum.splits option.splits)

lemma process_completed_no_submit:
  "\<not> list_ex is_Submit (snd (process_completed t n i fus))"
proof (induction fus arbitrary: t i)
  case Nil
  then show ?case by simp
next
  case (Cons fu fus)
  obtain t' ev where h: "handle_completed t n i fu = (t', ev)" by force
  obtain t'' evs where p: "process_completed t' n (Suc i) fus = (t'', evs)" by force
  have "\<not> list_ex is_Submit ev"
    using handle_completed_no_submit [of t n i fu] h by simp
  moreover have "\<not> list_ex is_Submit evs"
    using Cons.IH [of t' "Suc i"] p by simp
  ultimately show ?case
    using h p by simp
qed

text \<open>
  Every task is submitted at line 112, before the loop of line 115 starts: in the
  trace of the pool the submissions of all URLs, in input order, come first, and
  nothing after them is a submission. So every \<open>Sleep\<close> of line 129 comes after the
  last submission.
\<close>

lemma run_pool_submits_first:
  assumes "0 < max_workers t"
  shows "\<exists>rest. trace (run_pool w t urls) = map (\<lambda>(i, u). Submit i u) (enumerate 0 urls) @ rest
               \<and> \<not> list_ex is_Submit rest"
proof -
  let ?loop = "process_completed t (length urls) 1
                 (as_completed (completion w) 0 (submit_all w t urls))"
  have "map (\<lambda>(i, u, fr). Submit i u) (submit_all w t urls)
          = map (\<lambda>(i, u). Submit i u) (enumerate 0 urls)"
    by (simp add: submit_all_def case_prod_unfold comp_def)
  then have "trace (run_pool w t urls)
               = map (\<lambda>(i, u). Submit i u) (enumerate 0 urls) @ snd ?loop"
    using assms by (simp add: run_pool_def Let_def split: prod.splits)
  then show ?thesis
    using process_completed_no_submit by blast
qed

text \<open>
  C2. With \<open>max_workers = 1\<close> and two URLs, both probes are submitted before the first
  result is handled: the two sleeps of one second stand after both submissions, none
  stands between the completion of the first probe and the submission of the second.
  The sleeps add up to the number of URLs, and here the results arrive in input order.
\<close>

theorem sleeps_follow_all_submissions:
  "trace (run_pool paced_env example_tester
            [Some ''http://example.com/a'', Some ''http://example.com/b''])
     = [Submit 0 (Some ''http://example.com/a''), Submit 1 (Some ''http://example.com/b''),
        Print (Progress_ok 1 2 (Some ''http://example.com/a'') 250), Sleep 1,
        Print (Progress_ok 2 2 (Some ''http://example.com/b'') 250), Sleep 1]"
  by (simp add: run_pool_def paced_env_def example_env_def example_tester_def submit_all_def
        test_single_url_def handle_completed_def Let_def)

subsection \<open>\<open>parse_sitemap\<close>: the URLs of a sitemap\<close>

lemma collect_locs_map_filter:
  "collect_locs us urls = urls @ List.map_filter loc_text us"
proof (induction us arbitrary: urls)
  case Nil
  then show ?case by (simp add: map_filter_simps)
next
  case (Cons u us)
  then show ?case
    by (cases "find_elem u ns_loc") (simp_all add: map_filter_simps loc_text_def)
qed

lemma map_filter_all_Some:
  "\<forall>x \<in> set xs. f x \<noteq> None \<Longrightarrow> List.map_filter f xs = map (\<lambda>x. the (f x)) xs"
  by (induction xs) (auto simp: map_filter_simps)

text \<open>
  C4. When the sitemap request returns a response that \<open>raise_for_status\<close> accepts and
  whose body parses to the root element \<open>doc\<close>, \<open>parse_sitemap\<close> returns, for the \<open>url\<close>
  children of the root in document order, the text of the first \<open>loc\<close> child of each,
  leaving out (without an error) the \<open>url\<close> children that have no \<open>loc\<close>; nothing is
  removed, so a URL listed twice is returned twice. When each of the \<open>N\<close> \<open>url\<close>
  children has a \<open>loc\<close>, the list has exactly \<open>N\<close> elements, the \<open>k\<close>-th being the text
  of the \<open>k\<close>-th entry. (In a sitemap document the \<open>url\<close> elements are the children of
  the root \<open>urlset\<close>.)
\<close>

theorem parse_sitemap_urls:
  assumes "sitemap_get w (sitemap_url t) (timeout t) = Inr r"
    and "raise_for_status r = Inr ()"
    and "fromstring w (content r) = Inr doc"
  shows "fst (parse_sitemap w t) = List.map_filter loc_text (findall doc ns_url)
       \<and> ((\<forall>u \<in> set (findall doc ns_url). find_elem u ns_loc \<noteq> None) \<longrightarrow>
            length (fst (parse_sitemap w t)) = length (findall doc ns_url)
            \<and> fst (parse_sitemap w t) = map (\<lambda>u. the (loc_text u)) (findall doc ns_url))"
proof -
  have urls: "fst (parse_sitemap w t) = List.map_filter loc_text (findall doc ns_url)"
    using assms by (simp add: parse_sitemap_def Let_def collect_locs_map_filter)
  moreover have "List.map_filter loc_text (findall doc ns_url)
                   = map (\<lambda>u. the (loc_text u)) (findall doc ns_url)"
    if "\<forall>u \<in> set (findall doc ns_url). find_elem u ns_loc \<noteq> None"
    using that by (intro map_filter_all_Some) (simp add: loc_text_def)
  ultimately show ?thesis by simp
qed

text \<open>
  C4 at two documents: three entries of which the second has no \<open>loc\<close> give two URLs;
  two entries with the same \<open>loc\<close> give that URL twice.
\<close>

theorem parse_sitemap_urls_witness:
  "fst (parse_sitemap (example_env (http_answer 200) (Inr two_pages)) example_tester)
     = [Some ''http://example.com/a'', Some ''http://example.com/b'']
   \<and> fst (parse_sitemap (example_env (http_answer 200)
             (Inr (urlset [url_entry ''http://example.com/a'',
                           url_entry ''http://example.com/a''])))
           example_tester)
     = [Some ''http://example.com/a'', Some ''http://example.com/a'']"
  using parse_sitemap_urls [of "example_env (http_answer 200) (Inr two_pages)" example_tester
          "\<lparr>status = 200, content = ''<urlset/>'', http_error_msg = ''HTTP error''\<rparr>"
          two_pages]
        parse_sitemap_urls [of "example_env (http_answer 200)
             (Inr (urlset [url_entry ''http://example.com/a'',
                           url_entry ''http://example.com/a'']))" example_tester
          "\<lparr>status = 200, content = ''<urlset/>'', http_error_msg = ''HTTP error''\<rparr>"
          "urlset [url_entry ''http://example.com/a'', url_entry ''http://example.com/a'']"]
  by (simp add: example_env_def http_answer_def example_tester_def raise_for_status_def
        two_pages_def urlset_def url_entry_def url_entry_without_loc_def findall_def
        find_elem_def loc_text_def ns_url_def ns_loc_def map_filter_simps)

subsection \<open>\<open>test_single_url\<close>: failures and successes\<close>

text \<open>
  C5. For every world, tester, task index and URL, \<open>test_single_url\<close> returns a result
  for that URL and raises nothing. When the request raised an exception the result is
  a failure: \<open>success\<close> is false, there is no latency and no status code, and \<open>error\<close> is
  the fixed "request timed out" text of line 79 for a \<open>Timeout\<close> and the text of the
  exception otherwise.
\<close>

theorem test_single_url_never_raises:
  "\<exists>r. test_single_url w t i u = Inr r \<and> url r = u
      \<and> (\<forall>e. page_get w i u (timeout t) = Inl e \<longrightarrow>
            \<not> success r \<and> response_time r = None \<and> status_code r = None
            \<and> error r = Some (if is_Timeout e then timeout_message else str_exn e))"
  by (cases "page_get w i u (timeout t)") (simp_all add: test_single_url_def Let_def)

text \<open>C5 at a request that times out.\<close>

theorem test_single_url_never_raises_witness:
  "test_single_url (example_env (http_answer 200) (Inr two_pages)) example_tester 1
       (Some ''http://example.com/b'') = Inr timed_out"
  using test_single_url_never_raises
          [of "example_env (http_answer 200) (Inr two_pages)" example_tester 1
              "Some ''http://example.com/b''"]
  by (auto simp add: example_env_def example_tester_def timed_out_def)

text \<open>
  C6, as the code has it. Whenever the request returns a response, whatever its status,
  the result is a success with that status code and the latency
  \<open>(end_time - start_time) * 1000\<close>, the two times being readings of \<open>time.time()\<close>. The
  latency is not negative when the second reading is not below the first, which the
  wall clock does not promise.
\<close>

theorem test_single_url_success:
  assumes "page_get w i u (timeout t) = Inr resp"
  shows "test_single_url w t i u
           = Inr \<lparr>url = u,
                  response_time = Some ((snd (page_clock w i) - fst (page_clock w i)) * 1000),
                  status_code = Some (status resp), success = True, error = None\<rparr>
         \<and> (fst (page_clock w i) \<le> snd (page_clock w i) \<longrightarrow>
              0 \<le> (snd (page_clock w i) - fst (page_clock w i)) * 1000)"
  using assms by (simp add: test_single_url_def Let_def)

text \<open>C6 at a page that answers 404 after a quarter of a second.\<close>

theorem test_single_url_success_witness:
  "test_single_url (example_env (http_answer 200) (Inr two_pages)) example_tester 0
       (Some ''http://example.com/a'')
     = Inr \<lparr>url = Some ''http://example.com/a'', response_time = Some 250,
            status_code = Some 404, success = True, error = None\<rparr>"
  using test_single_url_success
          [of "example_env (http_answer 200) (Inr two_pages)" 0 "Some ''http://example.com/a''"
              example_tester "\<lparr>status = 404, content = [], http_error_msg = ''Not Found''\<rparr>"]
  by (simp add: example_env_def example_tester_def)

text \<open>
  C6 as stated fails: the latency is not measured from a monotonic clock. When the
  system clock is set back by one second while the request runs, \<open>time.time()\<close> reads
  10 and then 9, and the successful result carries a latency of -1000 ms, which no
  monotonic clock can give.
\<close>

theorem wall_clock_latency_negative:
  "test_single_url clock_set_back_env example_tester 0 (Some ''http://example.com/a'')
     = Inr \<lparr>url = Some ''http://example.com/a'', response_time = Some (- 1000),
            status_code = Some 404, success = True, error = None\<rparr>"
  by (simp add: test_single_url_def clock_set_back_env_def example_env_def example_tester_def
        Let_def)

subsection \<open>\<open>generate_report\<close>: statistics and buckets\<close>

lemmas report_defs = generate_report_def stats_block_def failed_block_def report_file_def
  file_line_of_def py_min_def py_max_def mean_def median_def fast_def medium_def slow_def

lemmas float_defs = percent_def float_times_def float_value_def true_divide_def
  nearest_float_def round_half_even_def bit_length.simps Let_def

lemma percent_2_of_5: "percent 2 5 = 40"
  by (simp add: float_defs)

lemma percent_1_of_5: "percent 1 5 = 20"
  by (simp add: float_defs)

lemma percent_1_of_3: "percent 1 3 = 2345624805922133 / 2 ^ 46"
  by (simp add: float_defs)

lemma py_min_Min: "ts \<noteq> [] \<Longrightarrow> py_min ts = Min (set ts)"
proof (cases ts)
  case Nil
  moreover assume "ts \<noteq> []"
  ultimately show ?thesis by simp
next
  case (Cons x xs)
  have "fold min xs x = Min (set (x # xs))"
    by (rule Min.set_eq_fold [symmetric])
  with Cons show ?thesis by (simp add: py_min_def)
qed

lemma py_max_Max: "ts \<noteq> [] \<Longrightarrow> py_max ts = Max (set ts)"
proof (cases ts)
  case Nil
  moreover assume "ts \<noteq> []"
  ultimately show ?thesis by simp
next
  case (Cons x xs)
  have "fold max xs x = Max (set (x # xs))"
    by (rule Max.set_eq_fold [symmetric])
  with Cons show ?thesis by (simp add: py_max_def)
qed

lemma those_map_length: "those xs = Some ys \<Longrightarrow> length ys = length xs"
  by (induction xs arbitrary: ys) (auto split: option.splits)

lemma generate_report_stats:
  assumes "those (map response_time (filter success (results t))) = Some ts" and "ts \<noteq> []"
  shows "generate_report w t =
           ([Print Blank_rule_equals, Print Summary_title, Print Rule_equals,
             Print (Total_pages (length (results t))),
             Print (Successful_count (length ts)),
             Print (Failed_count (length (filter (\<lambda>r. \<not> success r) (results t))))]
            @ stats_block ts @ failed_block (filter (\<lambda>r. \<not> success r) (results t))
            @ report_file w t, None)"
proof -
  have len: "length ts = length (filter success (results t))"
    using those_map_length [OF assms(1)] by simp
  with assms(2) have "results t \<noteq> []" by auto
  then show ?thesis
    using assms(1) len by (simp add: generate_report_def Let_def)
qed

text \<open>
  C3 as stated fails: for the five successful latencies 100, 300, 700, 1500 and 3000
  the report prints neither "below 500 ms: 1 (20%)" nor "500 to 2000 ms: 3 (60%)",
  because 300 is below 500.
\<close>

theorem five_latencies_buckets_counterexample:
  "Print (Bucket_fast 1 20)
     \<notin> set (fst (generate_report paced_env (example_tester\<lparr>results := five_results\<rparr>)))
   \<and> Print (Bucket_medium 3 60)
     \<notin> set (fst (generate_report paced_env (example_tester\<lparr>results := five_results\<rparr>)))"
  by (simp add: report_defs five_results_def timed_def example_tester_def Let_def)

text \<open>
  C3, as the code has it. Let \<open>ts\<close> be the latencies of the successful results, in
  order, and let there be at least one. After its six header lines the report prints
  the minimum, the maximum, the arithmetic mean and the median of \<open>ts\<close> and the three
  bucket counts of \<open>ts\<close> with their percentages of \<open>length ts\<close>: failed results do not
  enter. The median is the middle element of the sorted latencies for an odd count and
  the average of the two middle elements for an even count. For the latencies
  100, 300, 700, 1500, 3000 this is min 100, max 3000, mean 1120, median 700, and the
  buckets 2 (40%), 2 (40%) and 1 (20%).
\<close>

theorem summary_statistics:
  assumes "those (map response_time (filter success (results t))) = Some ts" and "ts \<noteq> []"
  shows "take 9 (drop 6 (fst (generate_report w t))) =
            [Print Stats_title, Print (Fastest (Min (set ts))), Print (Slowest (Max (set ts))),
             Print (Mean (sum_list ts / real (length ts))), Print (Median (median ts)),
             Print Distribution_title,
             Print (Bucket_fast (fast ts) (percent (fast ts) (length ts))),
             Print (Bucket_medium (medium ts) (percent (medium ts) (length ts))),
             Print (Bucket_slow (slow ts) (percent (slow ts) (length ts)))]
       \<and> (even (length ts) \<longrightarrow>
            median ts = (sort ts ! (length ts div 2 - 1) + sort ts ! (length ts div 2)) / 2)
       \<and> (odd (length ts) \<longrightarrow> median ts = sort ts ! (length ts div 2))
       \<and> (ts = [100, 300, 700, 1500, 3000] \<longrightarrow>
            Min (set ts) = 100 \<and> Max (set ts) = 3000 \<and> sum_list ts / real (length ts) = 1120
            \<and> median ts = 700
            \<and> fast ts = 2 \<and> percent (fast ts) (length ts) = 40
            \<and> medium ts = 2 \<and> percent (medium ts) (length ts) = 40
            \<and> slow ts = 1 \<and> percent (slow ts) (length ts) = 20)"
proof -
  have "stats_block ts =
            [Print Stats_title, Print (Fastest (Min (set ts))), Print (Slowest (Max (set ts))),
             Print (Mean (sum_list ts / real (length ts))), Print (Median (median ts)),
             Print Distribution_title,
             Print (Bucket_fast (fast ts) (percent (fast ts) (length ts))),
             Print (Bucket_medium (medium ts) (percent (medium ts) (length ts))),
             Print (Bucket_slow (slow ts) (percent (slow ts) (length ts)))]"
    using assms(2) by (simp add: stats_block_def py_min_Min py_max_Max mean_def)
  then have a: "take 9 (drop 6 (fst (generate_report w t))) =
            [Print Stats_title, Print (Fastest (Min (set ts))), Print (Slowest (Max (set ts))),
             Print (Mean (sum_list ts / real (length ts))), Print (Median (median ts)),
             Print Distribution_title,
             Print (Bucket_fast (fast ts) (percent (fast ts) (length ts))),
             Print (Bucket_medium (medium ts) (percent (medium ts) (length ts))),
             Print (Bucket_slow (slow ts) (percent (slow ts) (length ts)))]"
    using generate_report_stats [OF assms, of w] by simp
  have b: "even (length ts) \<longrightarrow>
            median ts = (sort ts ! (length ts div 2 - 1) + sort ts ! (length ts div 2)) / 2"
    by (simp add: median_def Let_def even_iff_mod_2_eq_zero)
  have c: "odd (length ts) \<longrightarrow> median ts = sort ts ! (length ts div 2)"
    by (simp add: median_def Let_def odd_iff_mod_2_eq_one)
  have d: "ts = [100, 300, 700, 1500, 3000] \<longrightarrow>
            Min (set ts) = 100 \<and> Max (set ts) = 3000 \<and> sum_list ts / real (length ts) = 1120
            \<and> median ts = 700
            \<and> fast ts = 2 \<and> percent (fast ts) (length ts) = 40
            \<and> medium ts = 2 \<and> percent (medium ts) (length ts) = 40
            \<and> slow ts = 1 \<and> percent (slow ts) (length ts) = 20"
  proof
    assume five: "ts = [100, 300, 700, 1500, 3000]"
    have len: "length ts = 5" by (simp add: five)
    have f: "fast ts = 2" by (simp add: five fast_def)
    have m: "medium ts = 2" by (simp add: five medium_def)
    have s: "slow ts = 1" by (simp add: five slow_def)
    have stats: "Min (set ts) = 100 \<and> Max (set ts) = 3000
                 \<and> sum_list ts / real (length ts) = 1120 \<and> median ts = 700"
      by (simp add: five median_def Let_def)
    have p: "percent (fast ts) (length ts) = 40" "percent (medium ts) (length ts) = 40"
      "percent (slow ts) (length ts) = 20"
      by (simp_all only: len f m s percent_2_of_5 percent_1_of_5)
    from stats f m s p
    show "Min (set ts) = 100 \<and> Max (set ts) = 3000 \<and> sum_list ts / real (length ts) = 1120
            \<and> median ts = 700
            \<and> fast ts = 2 \<and> percent (fast ts) (length ts) = 40
            \<and> medium ts = 2 \<and> percent (medium ts) (length ts) = 40
            \<and> slow ts = 1 \<and> percent (slow ts) (length ts) = 20"
      by blast
  qed
  from a b c d show ?thesis by blast
qed

text \<open>
  C3 at the five latencies with one failed result in front of them, and at four
  latencies, whose median is the average of 300 and 700.
\<close>

theorem summary_statistics_witness:
  "take 9 (drop 6
      (fst (generate_report paced_env (example_tester\<lparr>results := timed_out # five_results\<rparr>))))
     = [Print Stats_title, Print (Fastest 100), Print (Slowest 3000), Print (Mean 1120),
        Print (Median 700), Print Distribution_title, Print (Bucket_fast 2 40),
        Print (Bucket_medium 2 40), Print (Bucket_slow 1 20)]
   \<and> median [100, 300, 700, 1500] = 500"
proof -
  have h: "those (map response_time (filter success
             (results (example_tester\<lparr>results := timed_out # five_results\<rparr>))))
           = Some [100, 300, 700, 1500, 3000]"
    by (simp add: five_results_def timed_def timed_out_def)
  have h2: "those (map response_time (filter success
             (results (example_tester\<lparr>results := map timed [100, 300, 700, 1500]\<rparr>))))
           = Some [100, 300, 700, 1500]"
    by (simp add: timed_def)
  have s: "sort [100, 300, 700, 1500 :: real] = [100, 300, 700, 1500]"
    by simp
  let ?five = "[100, 300, 700, 1500, 3000] :: real list"
  have ne: "?five \<noteq> []" by simp
  note five = summary_statistics [OF h ne, of paced_env]
  from five have v1: "Min (set ?five) = 100" and v2: "Max (set ?five) = 3000"
    and v3: "sum_list ?five / real (length ?five) = 1120" and v4: "median ?five = 700"
    and v5: "fast ?five = 2" and v6: "percent (fast ?five) (length ?five) = 40"
    and v7: "medium ?five = 2" and v8: "percent (medium ?five) (length ?five) = 40"
    and v9: "slow ?five = 1" and v10: "percent (slow ?five) (length ?five) = 20"
    by blast+
  from five have lines:
    "take 9 (drop 6
       (fst (generate_report paced_env (example_tester\<lparr>results := timed_out # five_results\<rparr>))))
     = [Print Stats_title, Print (Fastest (Min (set ?five))), Print (Slowest (Max (set ?five))),
        Print (Mean (sum_list ?five / real (length ?five))), Print (Median (median ?five)),
        Print Distribution_title,
        Print (Bucket_fast (fast ?five) (percent (fast ?five) (length ?five))),
        Print (Bucket_medium (medium ?five) (percent (medium ?five) (length ?five))),
        Print (Bucket_slow (slow ?five) (percent (slow ?five) (length ?five)))]"
    by (rule conjunct1)
  have first: "take 9 (drop 6
      (fst (generate_report paced_env (example_tester\<lparr>results := timed_out # five_results\<rparr>))))
     = [Print Stats_title, Print (Fastest 100), Print (Slowest 3000), Print (Mean 1120),
        Print (Median 700), Print Distribution_title, Print (Bucket_fast 2 40),
        Print (Bucket_medium 2 40), Print (Bucket_slow 1 20)]"
    using lines by (simp only: v1 v2 v3 v4 v6 v8 v10) (simp only: v5 v7 v9)
  have second: "median [100, 300, 700, 1500] = 500"
    using summary_statistics [OF h2, of paced_env] s by simp
  from first second show ?thesis by blast
qed

lemma bucket_counts_sum: "fast ts + medium ts + slow ts = length ts"
  by (induction ts) (auto simp: fast_def medium_def slow_def)

subsection \<open>The rounding of the percentages\<close>

lemma bit_length_bounds:
  "0 < n \<Longrightarrow> 2 ^ (bit_length n - 1) \<le> n \<and> n < 2 ^ bit_length n \<and> 0 < bit_length n"
proof (induction n rule: bit_length.induct)
  case (1 n)
  show ?case
  proof (cases "n div 2 = 0")
    case True
    with "1.prems" have "n = 1" by (simp add: div_eq_0_iff)
    then show ?thesis by (simp add: bit_length.simps)
  next
    case False
    then have pos: "0 < n div 2" by simp
    from "1.IH" [OF _ pos] "1.prems"
    have ih: "2 ^ (bit_length (n div 2) - 1) \<le> n div 2" "n div 2 < 2 ^ bit_length (n div 2)"
      "0 < bit_length (n div 2)"
      by simp_all
    have bl: "bit_length n = Suc (bit_length (n div 2))"
      using "1.prems" by (subst bit_length.simps) simp
    have "2 ^ (bit_length n - 1) = 2 * 2 ^ (bit_length (n div 2) - 1)"
      using bl ih(3) by (cases "bit_length (n div 2)") simp_all
    also have "\<dots> \<le> 2 * (n div 2)" using ih(1) by simp
    also have "\<dots> \<le> n" by simp
    finally have lo: "2 ^ (bit_length n - 1) \<le> n" .
    have "n < 2 * (n div 2) + 2" by presburger
    also have "\<dots> \<le> 2 * 2 ^ bit_length (n div 2)" using ih(2) by simp
    finally have hi: "n < 2 ^ bit_length n" using bl by simp
    from lo hi bl show ?thesis by simp
  qed
qed

text \<open>Rounding to the nearest integer moves a quotient by at most one half.\<close>

lemma round_half_even_error:
  assumes "0 < b"
  shows "\<bar>real (round_half_even a b) - real a / real b\<bar> \<le> 1 / 2"
proof -
  let ?q = "a div b" and ?r = "a mod b"
  have a: "real a = real ?q * real b + real ?r"
    by (metis div_mult_mod_eq of_nat_add of_nat_mult)
  have rb: "?r < b" using assms by simp
  have frac: "real a / real b = real ?q + real ?r / real b"
    using assms by (simp add: a add_divide_distrib)
  have r0: "0 \<le> real ?r / real b" by simp
  have r1: "real ?r / real b < 1" using rb assms by simp
  consider (down) "2 * ?r < b" | (up) "b < 2 * ?r" | (tie) "2 * ?r = b"
    by linarith
  then show ?thesis
  proof cases
    case down
    then have "real ?r / real b < 1 / 2"
      using assms by (simp add: field_simps)
    moreover have "round_half_even a b = ?q"
      using down by (simp add: round_half_even_def Let_def)
    ultimately show ?thesis using frac r0 by simp
  next
    case up
    then have "1 / 2 < real ?r / real b"
      using assms by (simp add: field_simps)
    moreover have "round_half_even a b = ?q + 1"
      using up by (simp add: round_half_even_def Let_def)
    ultimately show ?thesis using frac r1 by simp
  next
    case tie
    then have "real ?r / real b = 1 / 2"
      using assms by (simp add: field_simps)
    moreover have "round_half_even a b = ?q \<or> round_half_even a b = ?q + 1"
      using tie by (simp add: round_half_even_def Let_def)
    ultimately show ?thesis using frac by auto
  qed
qed

lemma scaled_at_least_2_52:
  fixes A B PA PB :: real
  assumes "0 < A" "0 < B" "PA \<le> 2 * A" "B < PB" "0 < PA"
  shows "2 ^ 52 < A * (2 ^ 53 * PB) / (B * PA)"
proof -
  have "2 ^ 52 * (B * PA) \<le> 2 ^ 52 * (B * (2 * A))"
    using assms by (intro mult_left_mono) simp_all
  also have "\<dots> = A * (2 ^ 53 * B)" by simp
  also have "\<dots> < A * (2 ^ 53 * PB)"
    using assms by (intro mult_strict_left_mono) simp_all
  finally have "2 ^ 52 * (B * PA) < A * (2 ^ 53 * PB)" .
  moreover have "0 < B * PA" using assms by simp
  ultimately show ?thesis by (simp add: pos_less_divide_eq)
qed

text \<open>
  The float nearest to a positive quotient is positive and differs from the quotient
  by at most its \<open>2 ^ 53\<close>-th part.
\<close>

lemma nearest_float_error:
  assumes "0 < a" and "0 < b"
  shows "0 < fst (nearest_float a b) \<and> 0 < snd (nearest_float a b)
       \<and> \<bar>float_value (nearest_float a b) - real a / real b\<bar> \<le> real a / real b / 2 ^ 53"
proof -
  define u where "u = 53 + bit_length b"
  define v0 where "v0 = bit_length a"
  define v where "v = (if 2 ^ 53 * (b * 2 ^ v0) \<le> a * 2 ^ u then Suc v0 else v0)"
  define m where "m = round_half_even (a * 2 ^ u) (b * 2 ^ v)"
  define x where "x = real a / real b"
  define T where "T = (2::real) ^ u / 2 ^ v"
  define z where "z = x * T"
  have res: "nearest_float a b = (m * 2 ^ v, 2 ^ u)"
    using assms(1) by (simp add: nearest_float_def Let_def m_def v_def v0_def u_def)
  have Tpos: "0 < T" by (simp add: T_def)
  have A: "0 < real a" and B: "0 < real b" using assms by simp_all
  have ratio: "real (a * 2 ^ u) / real (b * 2 ^ v) = z"
    by (simp add: z_def x_def T_def)
  have PA: "(2::real) ^ v0 \<le> 2 * real a"
  proof -
    from bit_length_bounds [OF assms(1)]
    have lo: "2 ^ (bit_length a - 1) \<le> a" and pos: "0 < bit_length a" by simp_all
    have "(2::nat) ^ bit_length a = 2 * 2 ^ (bit_length a - 1)"
      using pos by (cases "bit_length a") simp_all
    then have "(2::nat) ^ v0 \<le> 2 * a" using lo by (simp add: v0_def)
    then have "real (2 ^ v0) \<le> real (2 * a)" by (simp only: of_nat_le_iff)
    then show ?thesis by simp
  qed
  have PB: "real b < 2 ^ bit_length b"
  proof -
    from bit_length_bounds [OF assms(2)] have "b < 2 ^ bit_length b" by simp
    then have "real b < real (2 ^ bit_length b)" by (simp only: of_nat_less_iff)
    then show ?thesis by simp
  qed
  have y0: "2 ^ 52 < x * ((2::real) ^ u / 2 ^ v0)"
  proof -
    have "2 ^ 52 < real a * (2 ^ 53 * 2 ^ bit_length b) / (real b * 2 ^ v0)"
      using A B PA PB by (intro scaled_at_least_2_52) simp_all
    also have "\<dots> = x * ((2::real) ^ u / 2 ^ v0)"
      by (simp add: x_def u_def power_add)
    finally show ?thesis .
  qed
  have y_lo: "2 ^ 52 \<le> z"
  proof (cases "2 ^ 53 * (b * 2 ^ v0) \<le> a * 2 ^ u")
    case True
    then have "real (2 ^ 53 * (b * 2 ^ v0)) \<le> real (a * 2 ^ u)"
      by (simp only: of_nat_le_iff)
    then have "2 ^ 53 * (real b * 2 ^ v0) \<le> real a * 2 ^ u" by simp
    moreover have "0 < real b * 2 ^ v0" using B by simp
    ultimately have "2 ^ 53 \<le> real a * 2 ^ u / (real b * 2 ^ v0)"
      by (simp add: pos_le_divide_eq)
    also have "\<dots> = 2 * z"
      using True by (simp add: z_def x_def T_def v_def)
    finally have "2 ^ 53 \<le> 2 * z" .
    then show ?thesis by simp
  next
    case False
    then have "v = v0" by (simp add: v_def)
    then show ?thesis using y0 by (simp add: z_def T_def)
  qed
  have bpos: "0 < b * 2 ^ v" using assms by simp
  have m_err: "\<bar>real m - z\<bar> \<le> 1 / 2"
    using round_half_even_error [OF bpos, of "a * 2 ^ u"]
    unfolding m_def [symmetric] ratio .
  have val: "float_value (nearest_float a b) = real m / T"
    by (simp add: res float_value_def T_def)
  have "x = z / T"
    using Tpos by (simp add: z_def)
  then have "\<bar>real m / T - x\<bar> = \<bar>(real m - z) / T\<bar>"
    by (simp add: diff_divide_distrib)
  also have "\<dots> = \<bar>real m - z\<bar> / T"
    using Tpos by (simp add: abs_divide)
  also have "\<dots> \<le> (1 / 2) / T"
    using m_err Tpos by (intro divide_right_mono) simp_all
  also have "\<dots> \<le> (z / 2 ^ 53) / T"
  proof -
    have "1 / 2 \<le> z / 2 ^ 53" using y_lo by simp
    then show ?thesis using Tpos by (intro divide_right_mono) simp_all
  qed
  also have "\<dots> = x / 2 ^ 53"
    using Tpos by (simp add: z_def)
  finally have err: "\<bar>float_value (nearest_float a b) - x\<bar> \<le> x / 2 ^ 53"
    by (simp only: val)
  have "1 \<le> z" using y_lo by simp
  then have "0 < real m"
    using m_err by linarith
  then have mpos: "0 < m" by simp
  have "0 < fst (nearest_float a b)" "0 < snd (nearest_float a b)"
    using mpos by (simp_all add: res)
  with err show ?thesis by (simp add: x_def)
qed

lemma percent_zero: "percent 0 n = 0"
  by (simp add: percent_def true_divide_def float_times_def nearest_float_def float_value_def)

text \<open>The two roundings of a percentage move it by at most three \<open>2 ^ 53\<close>-th parts.\<close>

lemma percent_error:
  assumes "0 < n"
  shows "\<bar>percent c n - 100 * (real c / real n)\<bar> \<le> 300 * (real c / real n / 2 ^ 53)"
proof (cases "c = 0")
  case True
  then show ?thesis by (simp add: percent_zero)
next
  case False
  then have cpos: "0 < c" by simp
  define x where "x = real c / real n"
  define q where "q = float_value (true_divide c n)"
  define d where "d = x / 2 ^ 53"
  have xpos: "0 < x" using cpos assms by (simp add: x_def)
  have first: "0 < fst (true_divide c n)" "0 < snd (true_divide c n)" "\<bar>q - x\<bar> \<le> d"
    using nearest_float_error [OF cpos assms]
    by (simp_all add: true_divide_def q_def x_def d_def)
  have d0: "0 \<le> d" and dx: "d \<le> x"
    using xpos by (simp_all add: d_def field_simps)
  have q2: "q \<le> 2 * x" and q0: "0 \<le> q"
    using first(3) dx by linarith+
  have hundred: "0 < fst (true_divide c n) * 100" using first(1) by simp
  define R where "R = real (fst (true_divide c n) * 100) / real (snd (true_divide c n))"
  have "\<bar>float_value (nearest_float (fst (true_divide c n) * 100) (snd (true_divide c n))) - R\<bar>
          \<le> R / 2 ^ 53"
    unfolding R_def using nearest_float_error [OF hundred first(2)] by blast
  moreover have "percent c n
        = float_value (nearest_float (fst (true_divide c n) * 100) (snd (true_divide c n)))"
    by (simp only: percent_def float_times_def)
  moreover have "R = 100 * q"
    by (simp add: R_def q_def float_value_def)
  ultimately have second: "\<bar>percent c n - 100 * q\<bar> \<le> 100 * q / 2 ^ 53"
    by (simp only:)
  have "q / 2 ^ 53 \<le> 2 * x / 2 ^ 53"
    using q2 by (intro divide_right_mono) simp_all
  then have "100 * q / 2 ^ 53 \<le> 200 * d"
    by (simp add: d_def)
  with second have "\<bar>percent c n - 100 * q\<bar> \<le> 200 * d" by linarith
  with first(3) have "\<bar>percent c n - 100 * x\<bar> \<le> 300 * d" by linarith
  then show ?thesis by (simp add: x_def d_def)
qed

lemma percent_sum_error:
  assumes "0 < n" and "c1 + c2 + c3 = n"
  shows "\<bar>percent c1 n + percent c2 n + percent c3 n - 100\<bar> \<le> 300 / 2 ^ 53"
proof -
  define x1 where "x1 = real c1 / real n"
  define x2 where "x2 = real c2 / real n"
  define x3 where "x3 = real c3 / real n"
  have "real c1 + real c2 + real c3 = real n"
    using assms(2) by (metis of_nat_add)
  then have one: "x1 + x2 + x3 = 1"
    using assms(1) by (simp add: x1_def x2_def x3_def flip: add_divide_distrib)
  have e1: "\<bar>percent c1 n - 100 * x1\<bar> \<le> 300 * (x1 / 2 ^ 53)"
    and e2: "\<bar>percent c2 n - 100 * x2\<bar> \<le> 300 * (x2 / 2 ^ 53)"
    and e3: "\<bar>percent c3 n - 100 * x3\<bar> \<le> 300 * (x3 / 2 ^ 53)"
    using percent_error [OF assms(1)] by (simp_all add: x1_def x2_def x3_def)
  have "300 * (x1 / 2 ^ 53) + 300 * (x2 / 2 ^ 53) + 300 * (x3 / 2 ^ 53)
          = 300 * ((x1 + x2 + x3) / 2 ^ 53)"
    by (simp add: add_divide_distrib distrib_left)
  also have "\<dots> = 300 / 2 ^ 53" by (simp add: one)
  finally have total: "300 * (x1 / 2 ^ 53) + 300 * (x2 / 2 ^ 53) + 300 * (x3 / 2 ^ 53)
                         = 300 / 2 ^ 53" .
  have "100 * x1 + 100 * x2 + 100 * x3 = 100" using one by linarith
  with e1 e2 e3 total show ?thesis by linarith
qed

text \<open>
  C10 as stated fails in its last part: the percentages are floats, and they need not
  add up to 100. For three latencies, one in each bucket, each percentage is the float
  \<open>1 / 3 * 100\<close>, which is 33.33333333333333 (exactly \<open>2345624805922133 / 2 ^ 46\<close>), and
  three times that is 99.99999999999999 (exactly \<open>7036874417766399 / 2 ^ 46\<close>), not 100.
\<close>

theorem one_third_percentages_counterexample:
  "percent (fast [100, 700, 3000]) (length [100, 700, 3000 :: real])
     = 2345624805922133 / 2 ^ 46
   \<and> percent (medium [100, 700, 3000]) (length [100, 700, 3000 :: real])
     = 2345624805922133 / 2 ^ 46
   \<and> percent (slow [100, 700, 3000]) (length [100, 700, 3000 :: real])
     = 2345624805922133 / 2 ^ 46
   \<and> percent (fast [100, 700, 3000]) (length [100, 700, 3000 :: real])
       + percent (medium [100, 700, 3000]) (length [100, 700, 3000 :: real])
       + percent (slow [100, 700, 3000]) (length [100, 700, 3000 :: real])
     = 7036874417766399 / 2 ^ 46
   \<and> percent (fast [100, 700, 3000]) (length [100, 700, 3000 :: real])
       + percent (medium [100, 700, 3000]) (length [100, 700, 3000 :: real])
       + percent (slow [100, 700, 3000]) (length [100, 700, 3000 :: real])
     \<noteq> 100"
proof -
  have len: "length [100, 700, 3000 :: real] = 3" by simp
  have f: "fast [100, 700, 3000] = 1" by (simp add: fast_def)
  have m: "medium [100, 700, 3000] = 1" by (simp add: medium_def)
  have s: "slow [100, 700, 3000] = 1" by (simp add: slow_def)
  show ?thesis
    by (simp only: len f m s percent_1_of_3) simp
qed

text \<open>
  C10, as the code has it. For every list of latencies the three bucket counts add up
  to the length of the list, and every single latency is counted in exactly one
  bucket. For a non-empty list the three percentages, each the float
  \<open>count / len * 100\<close>, add up to 100 up to rounding: their sum lies within
  \<open>300 / 2 ^ 53\<close> of 100. (Counts and percentages exist only when there is a successful
  result.)
\<close>

theorem buckets_partition_up_to_rounding:
  "fast ts + medium ts + slow ts = length ts
   \<and> fast [x] + medium [x] + slow [x] = 1
   \<and> (ts \<noteq> [] \<longrightarrow>
        \<bar>percent (fast ts) (length ts) + percent (medium ts) (length ts)
           + percent (slow ts) (length ts) - 100\<bar> \<le> 300 / 2 ^ 53)"
proof -
  have one: "fast [x] + medium [x] + slow [x] = 1"
    using bucket_counts_sum [of "[x]"] by simp
  have "\<bar>percent (fast ts) (length ts) + percent (medium ts) (length ts)
           + percent (slow ts) (length ts) - 100\<bar> \<le> 300 / 2 ^ 53" if "ts \<noteq> []"
  proof -
    from that have "0 < length ts" by simp
    then show ?thesis
      using bucket_counts_sum [of ts] by (rule percent_sum_error)
  qed
  with one bucket_counts_sum [of ts] show ?thesis by blast
qed

text \<open>
  C10 at three latencies, one in each bucket, and at five latencies all in the first
  bucket, where the only percentage that is not zero is exactly 100.
\<close>

theorem buckets_partition_up_to_rounding_witness:
  "fast [100, 700, 3000] + medium [100, 700, 3000] + slow [100, 700, 3000] = 3
   \<and> \<bar>percent (fast [100, 700, 3000]) (length [100, 700, 3000 :: real])
        + percent (medium [100, 700, 3000]) (length [100, 700, 3000 :: real])
        + percent (slow [100, 700, 3000]) (length [100, 700, 3000 :: real]) - 100\<bar>
       \<le> 300 / 2 ^ 53
   \<and> fast [1, 2, 3, 4, 5] + medium [1, 2, 3, 4, 5] + slow [1, 2, 3, 4, 5] = 5"
proof -
  have a: "[100, 700, 3000 :: real] \<noteq> []" by simp
  have "length [100, 700, 3000 :: real] = 3" and "length [1, 2, 3, 4, 5 :: real] = 5"
    by simp_all
  then show ?thesis
    using a buckets_partition_up_to_rounding [of "[100, 700, 3000]" 100]
      buckets_partition_up_to_rounding [of "[1, 2, 3, 4, 5]" 1]
    by metis
qed

text \<open>
  C8. With no results, \<open>generate_report\<close> prints the single line "no test results to
  report" and returns: no file is written.
\<close>

theorem empty_results_no_file:
  assumes "results t = []"
  shows "generate_report w t = ([Print No_results], None)
       \<and> \<not> list_ex is_Write_file (fst (generate_report w t))"
  using assms by (simp add: generate_report_def is_Write_file_def)

text \<open>C8 at a tester that has not run.\<close>

theorem empty_results_no_file_witness:
  "generate_report paced_env example_tester = ([Print No_results], None)"
  using empty_results_no_file [of example_tester paced_env]
  by (simp add: example_tester_def)

subsection \<open>\<open>run_test\<close>: a sitemap without URLs ends the run\<close>

lemma run_test_no_urls:
  "parse_sitemap w t = ([], ev) \<Longrightarrow>
     run_test w t = \<lparr>final = t,
                      trace = [Print Start_banner, Print Rule_equals] @ ev @ [Print No_urls_found],
                      raised = None\<rparr>"
  by (simp add: run_test_def)

lemma parse_sitemap_failure:
  assumes "sitemap_get w (sitemap_url t) (timeout t) = Inl e
         \<or> (\<exists>r. sitemap_get w (sitemap_url t) (timeout t) = Inr r
                \<and> ((400 \<le> status r \<and> status r < 600 \<and> e = HTTPError (http_error_msg r))
                    \<or> (\<not> (400 \<le> status r \<and> status r < 600)
                        \<and> fromstring w (content r) = Inl e)))"
  shows "parse_sitemap w t
           = ([], [Print (Fetching_sitemap (sitemap_url t)), Print (Parse_failed e)])"
  using assms by (auto simp: parse_sitemap_def raise_for_status_def)

text \<open>
  C7 as stated fails for a status that is not 2xx and not an error status either:
  \<open>raise_for_status\<close> accepts 300, so when such a response carries a sitemap the
  pages are probed and the report file is written.
\<close>

theorem status_300_sitemap_is_probed:
  "list_ex is_Submit
     (trace (run_test (example_env (http_answer 300) (Inr two_pages)) example_tester))
   \<and> list_ex is_Write_file
     (trace (run_test (example_env (http_answer 300) (Inr two_pages)) example_tester))"
  by (simp add: run_test_def parse_sitemap_def raise_for_status_def run_pool_def submit_all_def
        test_single_url_def handle_completed_def report_defs
        example_env_def http_answer_def example_tester_def
        two_pages_def urlset_def url_entry_def url_entry_without_loc_def findall_def
        find_elem_def ns_url_def ns_loc_def is_Submit_def is_Write_file_def Let_def)

text \<open>
  C7, as the code has it. When the sitemap request raises (a network failure), or
  returns a status from 400 to 599, or returns a body that the XML parser rejects,
  the run ends at line 101: the console shows the banner, the line announcing the
  request, the caught exception and "no URL to test"; the tester is unchanged, nothing
  is raised, no probe is submitted and no file is written.
\<close>

theorem sitemap_failure_is_fatal:
  assumes "(\<exists>e. sitemap_get w (sitemap_url t) (timeout t) = Inl e)
         \<or> (\<exists>r. sitemap_get w (sitemap_url t) (timeout t) = Inr r
                \<and> ((400 \<le> status r \<and> status r < 600)
                    \<or> (\<exists>e. fromstring w (content r) = Inl e)))"
  shows "(\<exists>e. run_test w t =
             \<lparr>final = t,
              trace = [Print Start_banner, Print Rule_equals,
                       Print (Fetching_sitemap (sitemap_url t)), Print (Parse_failed e),
                       Print No_urls_found],
              raised = None\<rparr>)
       \<and> \<not> list_ex is_Submit (trace (run_test w t))
       \<and> \<not> list_ex is_Write_file (trace (run_test w t))"
proof -
  from assms obtain e where
    "sitemap_get w (sitemap_url t) (timeout t) = Inl e
         \<or> (\<exists>r. sitemap_get w (sitemap_url t) (timeout t) = Inr r
                \<and> ((400 \<le> status r \<and> status r < 600 \<and> e = HTTPError (http_error_msg r))
                    \<or> (\<not> (400 \<le> status r \<and> status r < 600)
                        \<and> fromstring w (content r) = Inl e)))"
    by blast
  then have "parse_sitemap w t
           = ([], [Print (Fetching_sitemap (sitemap_url t)), Print (Parse_failed e)])"
    by (rule parse_sitemap_failure)
  then have run: "run_test w t =
             \<lparr>final = t,
              trace = [Print Start_banner, Print Rule_equals,
                       Print (Fetching_sitemap (sitemap_url t)), Print (Parse_failed e),
                       Print No_urls_found],
              raised = None\<rparr>"
    using run_test_no_urls by simp
  then have "\<not> list_ex is_Submit (trace (run_test w t))"
    and "\<not> list_ex is_Write_file (trace (run_test w t))"
    by (simp_all add: is_Submit_def is_Write_file_def)
  with run show ?thesis by blast
qed

text \<open>C7 at a refused connection, at a 404 and at a body that is not XML.\<close>

theorem sitemap_failure_is_fatal_witness:
  "\<not> list_ex is_Submit (trace (run_test
         (example_env (Inl (OtherException ''connection refused'')) (Inr two_pages))
         example_tester))
   \<and> \<not> list_ex is_Write_file (trace (run_test
         (example_env (Inl (OtherException ''connection refused'')) (Inr two_pages))
         example_tester))
   \<and> \<not> list_ex is_Submit (trace (run_test
         (example_env (http_answer 404) (Inr two_pages)) example_tester))
   \<and> \<not> list_ex is_Write_file (trace (run_test
         (example_env (http_answer 404) (Inr two_pages)) example_tester))
   \<and> \<not> list_ex is_Submit (trace (run_test
         (example_env (http_answer 200) (Inl (ParseError ''syntax error''))) example_tester))
   \<and> \<not> list_ex is_Write_file (trace (run_test
         (example_env (http_answer 200) (Inl (ParseError ''syntax error''))) example_tester))"
proof -
  let ?refused = "example_env (Inl (OtherException ''connection refused'')) (Inr two_pages)"
  let ?not_found = "example_env (http_answer 404) (Inr two_pages)"
  let ?malformed = "example_env (http_answer 200) (Inl (ParseError ''syntax error''))"
  have refused:
    "(\<exists>e. sitemap_get ?refused (sitemap_url example_tester) (timeout example_tester) = Inl e)
     \<or> (\<exists>r. sitemap_get ?refused (sitemap_url example_tester) (timeout example_tester) = Inr r
            \<and> ((400 \<le> status r \<and> status r < 600)
                \<or> (\<exists>e. fromstring ?refused (content r) = Inl e)))"
    by (simp add: example_env_def)
  have not_found:
    "(\<exists>e. sitemap_get ?not_found (sitemap_url example_tester) (timeout example_tester) = Inl e)
     \<or> (\<exists>r. sitemap_get ?not_found (sitemap_url example_tester) (timeout example_tester) = Inr r
            \<and> ((400 \<le> status r \<and> status r < 600)
                \<or> (\<exists>e. fromstring ?not_found (content r) = Inl e)))"
    by (simp add: example_env_def http_answer_def)
  have malformed:
    "(\<exists>e. sitemap_get ?malformed (sitemap_url example_tester) (timeout example_tester) = Inl e)
     \<or> (\<exists>r. sitemap_get ?malformed (sitemap_url example_tester) (timeout example_tester) = Inr r
            \<and> ((400 \<le> status r \<and> status r < 600)
                \<or> (\<exists>e. fromstring ?malformed (content r) = Inl e)))"
    by (simp add: example_env_def http_answer_def)
  show ?thesis
    using sitemap_failure_is_fatal [OF refused] sitemap_failure_is_fatal [OF not_found]
      sitemap_failure_is_fatal [OF malformed]
    by blast
qed

text \<open>
  C9 as stated fails for the same kind of status: a response with status 301 that
  \<open>requests\<close> hands back (no redirect to follow) and that carries a sitemap makes
  \<open>parse_sitemap\<close> return its URL, and the run goes on to probe and to write the file.
\<close>

theorem status_301_sitemap_gives_urls:
  "fst (parse_sitemap (example_env (http_answer 301) (Inr one_page)) example_tester)
     = [Some ''http://example.com/c'']
   \<and> list_ex is_Submit
       (trace (run_test (example_env (http_answer 301) (Inr one_page)) example_tester))
   \<and> list_ex is_Write_file
       (trace (run_test (example_env (http_answer 301) (Inr one_page)) example_tester))"
  by (simp add: run_test_def parse_sitemap_def raise_for_status_def run_pool_def submit_all_def
        test_single_url_def handle_completed_def report_defs
        example_env_def http_answer_def example_tester_def
        one_page_def urlset_def url_entry_def findall_def find_elem_def
        ns_url_def ns_loc_def is_Submit_def is_Write_file_def Let_def)

text \<open>
  C9, as the code has it. \<open>parse_sitemap\<close> returns the empty list, and raises nothing,
  in each of four cases: the request raised, the status is from 400 to 599, the body
  is not XML, or the body is a document whose root has no \<open>url\<close> child. The caller sees
  the same value in all four, and \<open>run_test\<close> does the same in all four: it prints what
  \<open>parse_sitemap\<close> printed and "no URL to test", leaves the tester unchanged, raises
  nothing, submits no probe and writes no file.
\<close>

theorem empty_list_for_failure_and_empty_sitemap:
  assumes "(\<exists>e. sitemap_get w (sitemap_url t) (timeout t) = Inl e)
         \<or> (\<exists>r. sitemap_get w (sitemap_url t) (timeout t) = Inr r
                \<and> ((400 \<le> status r \<and> status r < 600)
                    \<or> (\<exists>e. fromstring w (content r) = Inl e)
                    \<or> (\<exists>doc. fromstring w (content r) = Inr doc \<and> findall doc ns_url = [])))"
  shows "fst (parse_sitemap w t) = []
       \<and> final (run_test w t) = t
       \<and> raised (run_test w t) = None
       \<and> trace (run_test w t)
           = [Print Start_banner, Print Rule_equals] @ snd (parse_sitemap w t)
               @ [Print No_urls_found]
       \<and> \<not> list_ex is_Submit (trace (run_test w t))
       \<and> \<not> list_ex is_Write_file (trace (run_test w t))"
proof -
  have empty: "fst (parse_sitemap w t) = []"
    using assms by (auto simp: parse_sitemap_def raise_for_status_def Let_def split: sum.splits)
  have quiet: "\<not> list_ex is_Submit (snd (parse_sitemap w t))
             \<and> \<not> list_ex is_Write_file (snd (parse_sitemap w t))"
    by (simp add: parse_sitemap_def raise_for_status_def Let_def is_Submit_def is_Write_file_def
          split: sum.splits)
  have "run_test w t = \<lparr>final = t,
                      trace = [Print Start_banner, Print Rule_equals] @ snd (parse_sitemap w t)
                                @ [Print No_urls_found],
                      raised = None\<rparr>"
    using empty run_test_no_urls [of w t "snd (parse_sitemap w t)"]
    by (metis prod.collapse)
  then show ?thesis
    using empty quiet by (simp add: is_Submit_def is_Write_file_def)
qed

text \<open>C9 at a valid sitemap without entries and at a 503.\<close>

theorem empty_list_for_failure_and_empty_sitemap_witness:
  "fst (parse_sitemap (example_env (http_answer 200) (Inr (urlset []))) example_tester) = []
   \<and> \<not> list_ex is_Submit
         (trace (run_test (example_env (http_answer 200) (Inr (urlset []))) example_tester))
   \<and> \<not> list_ex is_Write_file
         (trace (run_test (example_env (http_answer 200) (Inr (urlset []))) example_tester))
   \<and> fst (parse_sitemap (example_env (http_answer 503) (Inr two_pages)) example_tester) = []
   \<and> \<not> list_ex is_Submit
         (trace (run_test (example_env (http_answer 503) (Inr two_pages)) example_tester))
   \<and> \<not> list_ex is_Write_file
         (trace (run_test (example_env (http_answer 503) (Inr two_pages)) example_tester))"
proof -
  let ?empty = "example_env (http_answer 200) (Inr (urlset []))"
  let ?unavailable = "example_env (http_answer 503) (Inr two_pages)"
  have empty:
    "(\<exists>e. sitemap_get ?empty (sitemap_url example_tester) (timeout example_tester) = Inl e)
     \<or> (\<exists>r. sitemap_get ?empty (sitemap_url example_tester) (timeout example_tester) = Inr r
            \<and> ((400 \<le> status r \<and> status r < 600)
                \<or> (\<exists>e. fromstring ?empty (content r) = Inl e)
                \<or> (\<exists>doc. fromstring ?empty (content r) = Inr doc \<and> findall doc ns_url = [])))"
    by (simp add: example_env_def http_answer_def urlset_def findall_def)
  have unavailable:
    "(\<exists>e. sitemap_get ?unavailable (sitemap_url example_tester) (timeout example_tester) = Inl e)
     \<or> (\<exists>r. sitemap_get ?unavailable (sitemap_url example_tester) (timeout example_tester) = Inr r
            \<and> ((400 \<le> status r \<and> status r < 600)
                \<or> (\<exists>e. fromstring ?unavailable (content r) = Inl e)
                \<or> (\<exists>doc. fromstring ?unavailable (content r) = Inr doc
                          \<and> findall doc ns_url = [])))"
    by (simp add: example_env_def http_answer_def)
  show ?thesis
    using empty_list_for_failure_and_empty_sitemap [OF empty]
      empty_list_for_failure_and_empty_sitemap [OF unavailable]
    by blast
qed

end
